theory Spec2Isabelle
  imports Complex_Main
begin

section \<open>The command-pattern document editor\<close>

text \<open>
  The classes \<open>Document\<close>, \<open>AddTextCommand\<close>, \<open>RemoveTextCommand\<close> and
  \<open>DocumentEditor\<close> of the design-patterns example, embedded with explicit state passing.
  A JavaScript string is a finite sequence of UTF-16 code units; none of the code below looks
  at a unit, so strings are lists over an arbitrary unit type \<open>'u\<close>.
\<close>

subsection \<open>Numbers and slicing, as ECMAScript defines them\<close>

text \<open>
  A value of the TypeScript type \<open>number\<close>. Every finite double is a rational; the only
  arithmetic applied to one here is negation and truncation, both exact. The two zeros
  are identified: \<open>ToIntegerOrInfinity\<close> sends both to \<open>0\<close>.
\<close>

datatype jsnumber = NaN | PosInfinity | NegInfinity | Finite rat

fun unary_minus :: "jsnumber \<Rightarrow> jsnumber" where
  "unary_minus NaN = NaN"
| "unary_minus PosInfinity = NegInfinity"
| "unary_minus NegInfinity = PosInfinity"
| "unary_minus (Finite q) = Finite (- q)"

datatype integer_or_infinity = MinusInfinity | IntegerValue int | PlusInfinity

definition truncate_rat :: "rat \<Rightarrow> int" where
  "truncate_rat q = (if q < 0 then - \<lfloor>- q\<rfloor> else \<lfloor>q\<rfloor>)"

fun ToIntegerOrInfinity :: "jsnumber \<Rightarrow> integer_or_infinity" where
  "ToIntegerOrInfinity NaN = IntegerValue 0"
| "ToIntegerOrInfinity PosInfinity = PlusInfinity"
| "ToIntegerOrInfinity NegInfinity = MinusInfinity"
| "ToIntegerOrInfinity (Finite q) = IntegerValue (truncate_rat q)"

text \<open>
  The clamping of a relative index that \<open>String.prototype.slice\<close> and
  \<open>Array.prototype.slice\<close> share: a negative index counts from the end, and the result
  lies in \<open>[0, len]\<close>.
\<close>

fun relative_index :: "nat \<Rightarrow> integer_or_infinity \<Rightarrow> nat" where
  "relative_index len MinusInfinity = 0"
| "relative_index len (IntegerValue i) =
     (if i < 0 then nat (max (int len + i) 0) else nat (min i (int len)))"
| "relative_index len PlusInfinity = len"

definition substring :: "'a list \<Rightarrow> nat \<Rightarrow> nat \<Rightarrow> 'a list" where
  "substring s from to = take (to - from) (drop from s)"

definition String_slice :: "'u list \<Rightarrow> jsnumber \<Rightarrow> jsnumber \<Rightarrow> 'u list" where
  "String_slice s start end =
     (let len = length s;
          from = relative_index len (ToIntegerOrInfinity start);
          to = relative_index len (ToIntegerOrInfinity end)
      in if from \<ge> to then [] else substring s from to)"

text \<open>The editor's indices are integers (\<open>-1\<close>, changed by \<open>++\<close> and \<open>--\<close> only).\<close>

definition Array_slice :: "'a list \<Rightarrow> int \<Rightarrow> int \<Rightarrow> 'a list" where
  "Array_slice xs start end =
     (let len = length xs;
          from = relative_index len (IntegerValue start);
          to = relative_index len (IntegerValue end)
      in if from \<ge> to then [] else substring xs from to)"

text \<open>\<open>xs[i]\<close>: \<open>undefined\<close> (here \<open>None\<close>) outside \<open>0 \<le> i < xs.length\<close>.\<close>

definition Array_get :: "'a list \<Rightarrow> int \<Rightarrow> 'a option" where
  "Array_get xs i = (if 0 \<le> i \<and> i < int (length xs) then Some (xs ! nat i) else None)"

subsection \<open>Document\<close>

record 'u Document =
  content :: "'u list"

definition new_Document :: "'u Document" where
  "new_Document = \<lparr>content = []\<rparr>"

definition addText :: "'u Document \<Rightarrow> 'u list \<Rightarrow> 'u Document" where
  "addText d t = d\<lparr>content := content d @ t\<rparr>"

definition removeText :: "'u Document \<Rightarrow> jsnumber \<Rightarrow> 'u Document" where
  "removeText d len = d\<lparr>content := String_slice (content d) (Finite 0) (unary_minus len)\<rparr>"

definition getContent :: "'u Document \<Rightarrow> 'u list" where
  "getContent d = content d"

definition setContent :: "'u Document \<Rightarrow> 'u list \<Rightarrow> 'u Document" where
  "setContent d c = d\<lparr>content := c\<rparr>"

subsection \<open>Commands\<close>

text \<open>
  A command holds a reference to its document, not a copy: documents live in a store, and a
  command carries the address. The fields of a command are never assigned after the
  constructor, so a command is a value. The constructor arguments come first, in the
  source's order, then \<open>previousContent\<close>.
\<close>

type_synonym ref = nat

type_synonym 'u heap = "ref \<Rightarrow> 'u Document"

datatype 'u Command =
    AddTextCommand ref "'u list" "'u list"
  | RemoveTextCommand ref jsnumber "'u list"

definition new_AddTextCommand :: "'u heap \<Rightarrow> ref \<Rightarrow> 'u list \<Rightarrow> 'u Command" where
  "new_AddTextCommand h doc t = AddTextCommand doc t (getContent (h doc))"

definition new_RemoveTextCommand :: "'u heap \<Rightarrow> ref \<Rightarrow> jsnumber \<Rightarrow> 'u Command" where
  "new_RemoveTextCommand h doc len = RemoveTextCommand doc len (getContent (h doc))"

fun Command_document :: "'u Command \<Rightarrow> ref" where
  "Command_document (AddTextCommand doc t previousContent) = doc"
| "Command_document (RemoveTextCommand doc len previousContent) = doc"

fun Command_previousContent :: "'u Command \<Rightarrow> 'u list" where
  "Command_previousContent (AddTextCommand doc t previousContent) = previousContent"
| "Command_previousContent (RemoveTextCommand doc len previousContent) = previousContent"

fun Command_execute :: "'u Command \<Rightarrow> 'u heap \<Rightarrow> 'u heap" where
  "Command_execute (AddTextCommand doc t previousContent) h = h(doc := addText (h doc) t)"
| "Command_execute (RemoveTextCommand doc len previousContent) h =
     h(doc := removeText (h doc) len)"

fun Command_undo :: "'u Command \<Rightarrow> 'u heap \<Rightarrow> 'u heap" where
  "Command_undo (AddTextCommand doc t previousContent) h =
     h(doc := setContent (h doc) previousContent)"
| "Command_undo (RemoveTextCommand doc len previousContent) h =
     h(doc := setContent (h doc) previousContent)"

subsection \<open>DocumentEditor\<close>

record 'u DocumentEditor =
  history :: "'u Command list"
  currentPosition :: int
  document :: ref

definition new_DocumentEditor :: "ref \<Rightarrow> 'u DocumentEditor" where
  "new_DocumentEditor doc = \<lparr>history = [], currentPosition = - 1, document = doc\<rparr>"

text \<open>
  The state a method of the editor runs in: the store of documents and the editor object.
  Calling a method of \<open>undefined\<close> raises a \<open>TypeError\<close>; that is the only way a method
  of the editor can fail.
\<close>

type_synonym 'u state = "'u heap \<times> 'u DocumentEditor"

datatype error = TypeError

fun executeCommand :: "'u state \<Rightarrow> 'u Command \<Rightarrow> 'u state" where
  "executeCommand (h, e) command =
     (Command_execute command h,
      e\<lparr>history := Array_slice (history e) 0 (currentPosition e + 1) @ [command],
        currentPosition := currentPosition e + 1\<rparr>)"

fun undo :: "'u state \<Rightarrow> error + 'u state" where
  "undo (h, e) =
     (if currentPosition e \<ge> 0 then
        (case Array_get (history e) (currentPosition e) of
           None \<Rightarrow> Inl TypeError
         | Some command \<Rightarrow>
             Inr (Command_undo command h, e\<lparr>currentPosition := currentPosition e - 1\<rparr>))
      else Inr (h, e))"

fun redo :: "'u state \<Rightarrow> error + 'u state" where
  "redo (h, e) =
     (if currentPosition e < int (length (history e)) - 1 then
        (case Array_get (history e) (currentPosition e + 1) of
           None \<Rightarrow> Inl TypeError
         | Some command \<Rightarrow>
             Inr (Command_execute command h, e\<lparr>currentPosition := currentPosition e + 1\<rparr>))
      else Inr (h, e))"

fun DocumentEditor_getContent :: "'u state \<Rightarrow> 'u list" where
  "DocumentEditor_getContent (h, e) = getContent (h (document e))"

subsection \<open>Sequences of calls\<close>

text \<open>
  A call of one of the editor's three mutating methods, and a sequence of calls run from a
  state; an exception ends the run.
\<close>

datatype 'u call = ExecuteCommand "'u Command" | Undo | Redo

fun invoke :: "'u state \<Rightarrow> 'u call \<Rightarrow> error + 'u state" where
  "invoke s (ExecuteCommand command) = Inr (executeCommand s command)"
| "invoke s Undo = undo s"
| "invoke s Redo = redo s"

fun calls :: "'u state \<Rightarrow> 'u call list \<Rightarrow> error + 'u state" where
  "calls s [] = Inr s"
| "calls s (c # cs) = (case invoke s c of Inl err \<Rightarrow> Inl err | Inr s' \<Rightarrow> calls s' cs)"

definition position_in_range :: "'u DocumentEditor \<Rightarrow> bool" where
  "position_in_range e \<longleftrightarrow>
     - 1 \<le> currentPosition e \<and> currentPosition e \<le> int (length (history e)) - 1"

subsection \<open>Client code\<close>

text \<open>
  A client that builds each command on the editor's document immediately before handing it
  to the editor, as \<open>new AddTextCommand(document, text)\<close> followed at once by
  \<open>editor.executeCommand\<close>.
\<close>

datatype 'u request = AppendText "'u list" | RemoveTrailing jsnumber | UndoRequest | RedoRequest

fun issue :: "'u state \<Rightarrow> 'u request \<Rightarrow> 'u call" where
  "issue (h, e) (AppendText t) = ExecuteCommand (new_AddTextCommand h (document e) t)"
| "issue (h, e) (RemoveTrailing len) = ExecuteCommand (new_RemoveTextCommand h (document e) len)"
| "issue (h, e) UndoRequest = Undo"
| "issue (h, e) RedoRequest = Redo"

fun session :: "'u state \<Rightarrow> 'u request list \<Rightarrow> error + 'u state" where
  "session s [] = Inr s"
| "session s (r # rs) =
     (case invoke s (issue s r) of Inl err \<Rightarrow> Inl err | Inr s' \<Rightarrow> session s' rs)"

text \<open>
  The demonstration at the end of the source file: one document, one editor, and three
  commands, all three constructed before the first is executed.
\<close>

definition demo_heap :: "char heap" where
  "demo_heap = (\<lambda>r. new_Document)"

definition demo_start :: "char state" where
  "demo_start = (demo_heap, new_DocumentEditor 0)"

definition addHello :: "char Command" where
  "addHello = new_AddTextCommand demo_heap 0 ''Hello ''"

definition addWorld :: "char Command" where
  "addWorld = new_AddTextCommand demo_heap 0 ''World!''"

definition removeChars :: "char Command" where
  "removeChars = new_RemoveTextCommand demo_heap 0 (Finite 6)"

subsection \<open>The fold of the specification\<close>

text \<open>
  The operations as the specification words them: append concatenates its text, remove
  drops the last \<open>count\<close> characters and stops at the empty buffer. The result of a
  sequence is the left-to-right fold over an initially empty buffer.
\<close>

datatype 'u operation = Append "'u list" | Remove nat

fun spec_apply :: "'u list \<Rightarrow> 'u operation \<Rightarrow> 'u list" where
  "spec_apply buf (Append t) = buf @ t"
| "spec_apply buf (Remove n) = take (length buf - n) buf"

definition spec_fold :: "'u operation list \<Rightarrow> 'u list" where
  "spec_fold ops = foldl spec_apply [] ops"

fun as_request :: "'u operation \<Rightarrow> 'u request" where
  "as_request (Append t) = AppendText t"
| "as_request (Remove n) = RemoveTrailing (Finite (of_nat n))"

section \<open>Properties\<close>

subsection \<open>Slicing and indexing\<close>

lemma truncate_rat_zero: "truncate_rat 0 = 0"
  by (simp add: truncate_rat_def)

lemma truncate_rat_of_int: "truncate_rat (of_int k) = k"
  by (simp add: truncate_rat_def)

text \<open>
  \<open>s.slice(0, j)\<close> for an integer \<open>j\<close>: a prefix of \<open>s\<close>, measured from the end when
  \<open>j\<close> is negative and from the start otherwise.
\<close>

lemma String_slice_from_zero:
  "String_slice s (Finite 0) (Finite (of_int j)) =
     (if j < 0 then take (length s - nat (- j)) s else take (nat j) s)"
proof (cases "j < 0")
  case True
  then have "nat (int (length s) + j) = length s - nat (- j)" by linarith
  with True show ?thesis
    by (simp add: String_slice_def substring_def Let_def truncate_rat_of_int truncate_rat_zero)
next
  case False
  then have "nat (min j (int (length s))) = min (nat j) (length s)" by linarith
  with False show ?thesis
    by (auto simp add: String_slice_def substring_def Let_def truncate_rat_of_int
        truncate_rat_zero min_def)
qed

lemma Array_slice_prefix: "0 \<le> k \<Longrightarrow> Array_slice xs 0 k = take (nat k) xs"
  by (auto simp add: Array_slice_def substring_def Let_def min_def)

lemma Array_get_pushed:
  assumes "0 \<le> k" and "nat k \<le> length xs"
  shows "Array_get (take (nat k) xs @ [c]) k = Some c"
proof -
  from assms have "length (take (nat k) xs) = nat k" by simp
  moreover from assms have "int (nat k) = k" by simp
  ultimately show ?thesis
    using assms by (simp add: Array_get_def nth_append)
qed

subsection \<open>Document.removeText\<close>

text \<open>
  What \<open>removeText\<close> does at every integer: a positive \<open>k\<close> drops the last \<open>k\<close>
  units, stopping at the empty string; \<open>0\<close> and every negative \<open>k\<close> keep the first
  \<open>-k\<close> units instead, so \<open>0\<close> keeps none.
\<close>

lemma removeText_of_int:
  "content (removeText d (Finite (of_int k))) =
     (if 0 < k then take (length (content d) - nat k) (content d)
      else take (nat (- k)) (content d))"
  using String_slice_from_zero[of "content d" "- k"]
  by (simp add: removeText_def)

lemma removeText_positive:
  "1 \<le> n \<Longrightarrow>
   content (removeText d (Finite (of_nat n))) = take (length (content d) - n) (content d)"
  using removeText_of_int[of d "int n"] by simp

lemma removeText_overlong:
  "1 \<le> n \<Longrightarrow> length (content d) \<le> n \<Longrightarrow> content (removeText d (Finite (of_nat n))) = []"
  by (simp add: removeText_positive)

text \<open>
  C6. The claim: for every content and every count, \<open>removeText(count)\<close> removes the last
  \<open>count\<close> characters, stopping at the empty string. At count \<open>0\<close> the code does not:
  on the content \<open>abc\<close> it leaves the empty string, where removing the last \<open>0\<close>
  characters leaves \<open>abc\<close>. (For every count from \<open>1\<close> on the code does what the claim
  says: \<open>removeText_positive\<close>, \<open>removeText_overlong\<close>.)
\<close>

theorem removeText_zero_on_abc:
  "content (removeText \<lparr>content = ''abc''\<rparr> (Finite 0)) = ''''
   \<and> spec_apply ''abc'' (Remove 0) = ''abc''"
  by (simp add: removeText_def String_slice_def truncate_rat_def)

text \<open>
  C9. For every document, whatever its content, \<open>removeText(0)\<close> leaves the content
  empty: the call computes \<open>content.slice(0, -0)\<close>, which is \<open>content.slice(0, 0)\<close>.
\<close>

theorem removeText_zero_empties: "content (removeText d (Finite 0)) = []"
  by (simp add: removeText_def String_slice_def truncate_rat_def)

subsection \<open>Commands\<close>

text \<open>
  A command whose snapshot is the content its document holds now is undone exactly: the
  whole store is as before.
\<close>

lemma execute_then_undo:
  "Command_previousContent c = getContent (h (Command_document c)) \<Longrightarrow>
   Command_undo c (Command_execute c h) = h"
  by (cases c) (simp_all add: setContent_def addText_def removeText_def getContent_def)

lemma undo_writes_snapshot:
  "content (Command_undo c h (Command_document c)) = Command_previousContent c"
  by (cases c) (simp_all add: setContent_def)

text \<open>
  C10. For either command variant and every store, \<open>undo\<close> called twice in a row leaves
  what \<open>undo\<close> called once leaves: it overwrites the content with \<open>previousContent\<close>.
\<close>

theorem Command_undo_idempotent: "Command_undo c (Command_undo c h) = Command_undo c h"
  by (cases c) (simp_all add: setContent_def)

subsection \<open>The position invariant\<close>

lemma executeCommand_in_range:
  "position_in_range e \<Longrightarrow> position_in_range (snd (executeCommand (h, e) c))"
  by (auto simp add: position_in_range_def Array_slice_prefix min_def)

lemma undo_in_range:
  "position_in_range e \<Longrightarrow> \<exists>h' e'. undo (h, e) = Inr (h', e') \<and> position_in_range e'"
  by (auto simp add: position_in_range_def Array_get_def)

lemma redo_in_range:
  "position_in_range e \<Longrightarrow> \<exists>h' e'. redo (h, e) = Inr (h', e') \<and> position_in_range e'"
  by (auto simp add: position_in_range_def Array_get_def)

lemma invoke_in_range:
  assumes "position_in_range (snd s)"
  shows "\<exists>s'. invoke s c = Inr s' \<and> position_in_range (snd s')"
proof (cases s)
  case (Pair h e)
  with assms have inv: "position_in_range e" by simp
  show ?thesis
  proof (cases c)
    case (ExecuteCommand x)
    with Pair executeCommand_in_range[OF inv, of h x] show ?thesis by simp
  next
    case Undo
    with Pair undo_in_range[OF inv, of h] show ?thesis by auto
  next
    case Redo
    with Pair redo_in_range[OF inv, of h] show ?thesis by auto
  qed
qed

lemma calls_in_range:
  "position_in_range (snd s) \<Longrightarrow> \<exists>s'. calls s cs = Inr s' \<and> position_in_range (snd s')"
proof (induction cs arbitrary: s)
  case Nil
  then show ?case by simp
next
  case (Cons c cs)
  from invoke_in_range[OF Cons.prems, of c]
  obtain s1 where s1: "invoke s c = Inr s1" "position_in_range (snd s1)"
    by blast
  from Cons.IH[OF s1(2)] s1(1) show ?case by simp
qed

text \<open>
  C5. From the initial editor (\<open>history = []\<close>, \<open>currentPosition = -1\<close>), over any
  store and for any commands, every sequence of \<open>executeCommand\<close>, \<open>undo\<close> and
  \<open>redo\<close> calls runs to a state (none of the calls raises), and in that state
  \<open>-1 \<le> currentPosition \<le> history.length - 1\<close>.
\<close>

theorem reachable_position_in_range:
  "\<exists>s. calls (h, new_DocumentEditor d) cs = Inr s \<and> position_in_range (snd s)"
  by (rule calls_in_range) (simp add: position_in_range_def new_DocumentEditor_def)

subsection \<open>Boundaries of the history\<close>

text \<open>
  C4. \<open>undo()\<close> at \<open>currentPosition = -1\<close> and \<open>redo()\<close> at
  \<open>currentPosition = history.length - 1\<close> return normally and leave the store of
  documents and the editor (history and position) as they were.
\<close>

theorem boundary_noops:
  "(currentPosition e = - 1 \<longrightarrow> undo (h, e) = Inr (h, e))
   \<and> (currentPosition e = int (length (history e)) - 1 \<longrightarrow> redo (h, e) = Inr (h, e))"
  by simp

theorem boundary_noops_witness:
  "currentPosition (new_DocumentEditor 0 :: char DocumentEditor) = - 1
   \<and> undo (demo_heap, new_DocumentEditor 0) = Inr (demo_heap, new_DocumentEditor 0)
   \<and> currentPosition \<lparr>history = [addHello], currentPosition = 0, document = 0\<rparr>
       = int (length (history \<lparr>history = [addHello], currentPosition = 0, document = 0\<rparr>)) - 1
   \<and> redo (demo_heap, \<lparr>history = [addHello], currentPosition = 0, document = 0\<rparr>)
       = Inr (demo_heap, \<lparr>history = [addHello], currentPosition = 0, document = 0\<rparr>)"
  using boundary_noops [of "new_DocumentEditor 0" demo_heap]
    boundary_noops [of "\<lparr>history = [addHello], currentPosition = 0, document = 0\<rparr>" demo_heap]
  by (simp add: new_DocumentEditor_def)

text \<open>
  C3. With history \<open>[c1, c2]\<close> at position \<open>1\<close>, \<open>undo()\<close> followed by
  \<open>executeCommand(c3)\<close> leaves the history \<open>[c1, c3]\<close> at position \<open>1\<close>, and a
  \<open>redo()\<close> after that changes nothing: neither the store nor the editor, so \<open>c2\<close> is
  not executed again.
\<close>

theorem new_command_discards_redo_branch:
  "calls (h, \<lparr>history = [c1, c2], currentPosition = 1, document = d\<rparr>)
       [Undo, ExecuteCommand c3]
     = Inr (Command_execute c3 (Command_undo c2 h),
            \<lparr>history = [c1, c3], currentPosition = 1, document = d\<rparr>)
   \<and> redo (Command_execute c3 (Command_undo c2 h),
            \<lparr>history = [c1, c3], currentPosition = 1, document = d\<rparr>)
     = Inr (Command_execute c3 (Command_undo c2 h),
            \<lparr>history = [c1, c3], currentPosition = 1, document = d\<rparr>)"
  by (simp add: Array_get_def Array_slice_def substring_def)

subsection \<open>Undo and redo of the newest command\<close>

lemma pushed_command_found:
  assumes "position_in_range e"
  shows "Array_get (Array_slice (history e) 0 (currentPosition e + 1) @ [c])
           (currentPosition e + 1) = Some c"
proof -
  from assms have k: "0 \<le> currentPosition e + 1"
    and l: "nat (currentPosition e + 1) \<le> length (history e)"
    by (simp_all add: position_in_range_def nat_le_iff)
  from k l have "Array_get (take (nat (currentPosition e + 1)) (history e) @ [c])
      (currentPosition e + 1) = Some c"
    by (rule Array_get_pushed)
  with k show ?thesis by (simp add: Array_slice_prefix)
qed

lemma pushed_command_last:
  assumes "position_in_range e"
  shows "int (length (Array_slice (history e) 0 (currentPosition e + 1) @ [c])) - 1
           = currentPosition e + 1"
proof -
  from assms have k: "0 \<le> currentPosition e + 1"
    and l: "nat (currentPosition e + 1) \<le> length (history e)"
    by (simp_all add: position_in_range_def nat_le_iff)
  then show ?thesis by (simp add: Array_slice_prefix min_def)
qed

text \<open>
  Where a command was constructed on the content its document holds when it is executed,
  and the editor's position is in range (as in every reachable state),
  \<open>executeCommand(c)\<close> followed by \<open>undo()\<close> restores every document exactly, and a
  \<open>redo()\<close> after that ends in the state \<open>executeCommand(c)\<close> alone ends in.
\<close>

lemma execute_then_undo_restores:
  assumes "position_in_range e"
    and "Command_previousContent c = getContent (h (Command_document c))"
  shows "calls (h, e) [ExecuteCommand c, Undo] =
     Inr (h, e\<lparr>history := Array_slice (history e) 0 (currentPosition e + 1) @ [c]\<rparr>)"
  using assms(2) pushed_command_found[OF assms(1), of c] assms(1)
  by (simp add: execute_then_undo position_in_range_def)

lemma execute_undo_redo_replays:
  assumes "position_in_range e"
    and "Command_previousContent c = getContent (h (Command_document c))"
  shows "calls (h, e) [ExecuteCommand c, Undo, Redo] = Inr (executeCommand (h, e) c)"
  using assms(2) pushed_command_found[OF assms(1), of c] pushed_command_last[OF assms(1), of c]
    assms(1)
  by (simp add: execute_then_undo position_in_range_def)

text \<open>
  C1. The claim: for any document state \<open>S\<close> and any command, \<open>executeCommand\<close>
  followed by \<open>undo()\<close> restores the content to exactly \<open>S\<close>. The code does not do
  so in the source's own demonstration, where \<open>addHello\<close> and \<open>addWorld\<close> are both
  constructed on the empty document: after \<open>executeCommand(addHello)\<close> the content is
  \<open>Hello \<close>, and \<open>executeCommand(addWorld)\<close> followed by \<open>undo()\<close> leaves the
  empty string, not \<open>Hello \<close>. The field \<open>previousContent\<close> is meant to hold the content
  before the command, and it is filled in the constructor instead of in \<open>execute\<close>.
\<close>

theorem undo_restores_construction_snapshot_demo:
  "map_sum id DocumentEditor_getContent (calls demo_start [ExecuteCommand addHello])
     = Inr ''Hello ''
   \<and> map_sum id DocumentEditor_getContent
       (calls demo_start [ExecuteCommand addHello, ExecuteCommand addWorld, Undo])
     = Inr ''''"
  by (simp add: demo_start_def demo_heap_def addHello_def addWorld_def new_Document_def
      new_DocumentEditor_def new_AddTextCommand_def getContent_def addText_def setContent_def
      Array_slice_def Array_get_def substring_def)

text \<open>
  C7. The claim: for any document state and any command, \<open>executeCommand\<close>,
  \<open>undo()\<close>, \<open>redo()\<close> leaves the document as \<open>executeCommand\<close> alone leaves it.
  The code does not do so in the demonstration as the source runs it: after
  \<open>executeCommand\<close> of \<open>addHello\<close>, \<open>addWorld\<close> and \<open>removeChars\<close> the content
  is \<open>Hello \<close>; a \<open>undo()\<close> and a \<open>redo()\<close> later it is empty. The \<open>undo()\<close>
  writes back the content \<open>removeChars\<close> was constructed on, the empty string, and
  \<open>redo()\<close> removes from that.
\<close>

theorem redo_replays_on_snapshot_demo:
  "map_sum id DocumentEditor_getContent
       (calls demo_start
          [ExecuteCommand addHello, ExecuteCommand addWorld, ExecuteCommand removeChars])
     = Inr ''Hello ''
   \<and> map_sum id DocumentEditor_getContent
       (calls demo_start
          [ExecuteCommand addHello, ExecuteCommand addWorld, ExecuteCommand removeChars,
           Undo, Redo])
     = Inr ''''"
  by (simp add: demo_start_def demo_heap_def addHello_def addWorld_def removeChars_def
      new_Document_def new_DocumentEditor_def new_AddTextCommand_def new_RemoveTextCommand_def
      getContent_def addText_def setContent_def removeText_def String_slice_def
      truncate_rat_def Array_slice_def Array_get_def substring_def)

subsection \<open>Sessions\<close>

text \<open>
  C8. From an empty document, with each command constructed immediately before it is handed
  to the editor: after appending \<open>Hello \<close> and \<open>World!\<close> the content is
  \<open>Hello World!\<close>; after one \<open>undo()\<close> it is \<open>Hello \<close>; after a second, empty;
  after a \<open>redo()\<close>, \<open>Hello \<close> again.
\<close>

theorem hello_world_scenario:
  "map_sum id DocumentEditor_getContent
     (session (h(d := new_Document), new_DocumentEditor d)
        [AppendText ''Hello '', AppendText ''World!''])
     = Inr ''Hello World!''
   \<and> map_sum id DocumentEditor_getContent
     (session (h(d := new_Document), new_DocumentEditor d)
        [AppendText ''Hello '', AppendText ''World!'', UndoRequest])
     = Inr ''Hello ''
   \<and> map_sum id DocumentEditor_getContent
     (session (h(d := new_Document), new_DocumentEditor d)
        [AppendText ''Hello '', AppendText ''World!'', UndoRequest, UndoRequest])
     = Inr ''''
   \<and> map_sum id DocumentEditor_getContent
     (session (h(d := new_Document), new_DocumentEditor d)
        [AppendText ''Hello '', AppendText ''World!'', UndoRequest, UndoRequest, RedoRequest])
     = Inr ''Hello ''"
  by (simp add: new_Document_def new_DocumentEditor_def new_AddTextCommand_def getContent_def
      addText_def setContent_def Array_slice_def Array_get_def substring_def)

text \<open>
  A sequence of appends and removes in which no remove has count \<open>0\<close>, each wrapped as
  a command and executed, ends with the content the fold of the specification gives.
\<close>

lemma session_fold_from:
  "Remove 0 \<notin> set ops \<Longrightarrow>
   \<exists>s'. session (h, e) (map as_request ops) = Inr s'
      \<and> DocumentEditor_getContent s' = foldl spec_apply (content (h (document e))) ops"
proof (induction ops arbitrary: h e)
  case Nil
  then show ?case by (simp add: getContent_def)
next
  case (Cons x ops)
  then have rest: "Remove 0 \<notin> set ops" by simp
  show ?case
  proof (cases x)
    case (Append t)
    let ?h = "Command_execute (new_AddTextCommand h (document e) t) h"
    let ?e = "snd (executeCommand (h, e) (new_AddTextCommand h (document e) t))"
    have "content (?h (document ?e)) = content (h (document e)) @ t"
      by (simp add: new_AddTextCommand_def addText_def)
    with Cons.IH[OF rest, of ?h ?e] Append show ?thesis
      by simp
  next
    case (Remove n)
    with Cons.prems have n: "1 \<le> n" by (cases n) auto
    let ?c = "new_RemoveTextCommand h (document e) (Finite (of_nat n))"
    let ?h = "Command_execute ?c h"
    let ?e = "snd (executeCommand (h, e) ?c)"
    have "content (?h (document ?e)) =
        take (length (content (h (document e))) - n) (content (h (document e)))"
      by (simp add: new_RemoveTextCommand_def removeText_positive[OF n])
    with Cons.IH[OF rest, of ?h ?e] Remove show ?thesis
      by simp
  qed
qed

lemma session_fold_positive_counts:
  "Remove 0 \<notin> set ops \<Longrightarrow>
   map_sum id DocumentEditor_getContent
     (session (h(d := new_Document), new_DocumentEditor d) (map as_request ops))
   = Inr (spec_fold ops)"
  using session_fold_from[of ops "h(d := new_Document)" "new_DocumentEditor d"]
  by (auto simp add: spec_fold_def new_Document_def new_DocumentEditor_def)

text \<open>
  C2. The claim: after any sequence of appends and removes, each wrapped as a command and
  executed, the content is the fold of the operations over the empty buffer. A remove of
  count \<open>0\<close> breaks it: after appending \<open>abc\<close> and removing \<open>0\<close> characters the
  editor's content is empty, and the fold gives \<open>abc\<close>. (Without such a remove the
  claim holds: \<open>session_fold_positive_counts\<close>.)
\<close>

theorem append_then_remove_zero:
  "map_sum id DocumentEditor_getContent
     (session demo_start (map as_request [Append ''abc'', Remove 0]))
     = Inr ''''
   \<and> spec_fold [Append ''abc'', Remove 0] = ''abc''"
  by (simp add: demo_start_def demo_heap_def new_Document_def spec_fold_def
      new_DocumentEditor_def new_AddTextCommand_def new_RemoveTextCommand_def getContent_def
      addText_def removeText_def String_slice_def truncate_rat_def Array_slice_def
      substring_def)

end
